theory Spec2Isabelle
  imports Main
begin

section \<open>Strings, bytes and the three codecs\<close>

text \<open>
  A Python \<open>str\<close> is a sequence of Unicode code points and a \<open>bytes\<close> object a sequence
  of integers below 256; both are lists of naturals here.  \<open>len\<close> is \<open>length\<close>,
  \<open>ord(line[i])\<close> is \<open>line ! i\<close> (read only under the guard \<open>i < len(line)\<close>).
  An encode or decode that raises \<open>UnicodeEncodeError\<close> / \<open>UnicodeDecodeError\<close>
  returns \<open>None\<close>.
\<close>

type_synonym str = "nat list"
type_synonym bytes = "nat list"

datatype codec = CP1252 | Latin1

text \<open>
  The printable characters that Windows-1252 places in 0x80..0x9F, as (code point, byte).
  The bytes 0x81, 0x8D, 0x8F, 0x90 and 0x9D are undefined in Python's \<open>cp1252\<close> codec, so
  U+0081, U+008D, U+008F, U+0090 and U+009D cannot be encoded.
\<close>

definition cp1252_table :: "(nat \<times> nat) list" where
  "cp1252_table =
    [(0x20AC, 0x80), (0x201A, 0x82), (0x0192, 0x83), (0x201E, 0x84), (0x2026, 0x85),
     (0x2020, 0x86), (0x2021, 0x87), (0x02C6, 0x88), (0x2030, 0x89), (0x0160, 0x8A),
     (0x2039, 0x8B), (0x0152, 0x8C), (0x017D, 0x8E), (0x2018, 0x91), (0x2019, 0x92),
     (0x201C, 0x93), (0x201D, 0x94), (0x2022, 0x95), (0x2013, 0x96), (0x2014, 0x97),
     (0x02DC, 0x98), (0x2122, 0x99), (0x0161, 0x9A), (0x203A, 0x9B), (0x0153, 0x9C),
     (0x017E, 0x9E), (0x0178, 0x9F)]"

definition cp1252_encode_char :: "nat \<Rightarrow> nat option" where
  "cp1252_encode_char c =
     (if c < 0x80 then Some c
      else if 0xA0 \<le> c \<and> c \<le> 0xFF then Some c
      else map_of cp1252_table c)"

definition latin1_encode_char :: "nat \<Rightarrow> nat option" where
  "latin1_encode_char c = (if c < 0x100 then Some c else None)"

fun encode_with :: "(nat \<Rightarrow> nat option) \<Rightarrow> str \<Rightarrow> bytes option" where
  "encode_with f [] = Some []"
| "encode_with f (c # cs) =
     (case f c of
        None \<Rightarrow> None
      | Some b \<Rightarrow> (case encode_with f cs of None \<Rightarrow> None | Some bs \<Rightarrow> Some (b # bs)))"

fun encode :: "codec \<Rightarrow> str \<Rightarrow> bytes option" where
  "encode CP1252 s = encode_with cp1252_encode_char s"
| "encode Latin1 s = encode_with latin1_encode_char s"

definition is_cont :: "nat \<Rightarrow> bool" where
  "is_cont b = (0x80 \<le> b \<and> b \<le> 0xBF)"

text \<open>
  \<open>bytes.decode('utf-8')\<close> with the default strict error handler: exactly the well-formed
  byte sequences of the Unicode standard are accepted (no overlong forms, no surrogates,
  nothing above U+10FFFF); any other input raises.
\<close>

fun utf8_decode :: "bytes \<Rightarrow> str option" where
  "utf8_decode [] = Some []"
| "utf8_decode (b0 # bs) =
     (if b0 < 0x80 then map_option ((#) b0) (utf8_decode bs)
      else if 0xC2 \<le> b0 \<and> b0 \<le> 0xDF then
        (case bs of
           b1 # r \<Rightarrow>
             if is_cont b1
             then map_option ((#) ((b0 - 0xC0) * 0x40 + (b1 - 0x80))) (utf8_decode r)
             else None
         | _ \<Rightarrow> None)
      else if 0xE0 \<le> b0 \<and> b0 \<le> 0xEF then
        (case bs of
           b1 # b2 # r \<Rightarrow>
             if is_cont b1 \<and> is_cont b2 \<and> (b0 = 0xE0 \<longrightarrow> 0xA0 \<le> b1)
                \<and> (b0 = 0xED \<longrightarrow> b1 \<le> 0x9F)
             then map_option
                    ((#) ((b0 - 0xE0) * 0x1000 + (b1 - 0x80) * 0x40 + (b2 - 0x80)))
                    (utf8_decode r)
             else None
         | _ \<Rightarrow> None)
      else if 0xF0 \<le> b0 \<and> b0 \<le> 0xF4 then
        (case bs of
           b1 # b2 # b3 # r \<Rightarrow>
             if is_cont b1 \<and> is_cont b2 \<and> is_cont b3 \<and> (b0 = 0xF0 \<longrightarrow> 0x90 \<le> b1)
                \<and> (b0 = 0xF4 \<longrightarrow> b1 \<le> 0x8F)
             then map_option
                    ((#) ((b0 - 0xF0) * 0x40000 + (b1 - 0x80) * 0x1000
                          + (b2 - 0x80) * 0x40 + (b3 - 0x80)))
                    (utf8_decode r)
             else None
         | _ \<Rightarrow> None)
      else None)"

text \<open>
  \<open>str.encode('utf-8')\<close>, strict: a surrogate code point (U+D800..U+DFFF) raises.
\<close>

definition utf8_encode_char :: "nat \<Rightarrow> bytes option" where
  "utf8_encode_char c =
     (if c < 0x80 then Some [c]
      else if c < 0x800 then Some [0xC0 + c div 0x40, 0x80 + c mod 0x40]
      else if c < 0x10000 then
        (if 0xD800 \<le> c \<and> c \<le> 0xDFFF then None
         else Some [0xE0 + c div 0x1000, 0x80 + (c div 0x40) mod 0x40, 0x80 + c mod 0x40])
      else if c < 0x110000 then
        Some [0xF0 + c div 0x40000, 0x80 + (c div 0x1000) mod 0x40,
              0x80 + (c div 0x40) mod 0x40, 0x80 + c mod 0x40]
      else None)"

fun utf8_encode :: "str \<Rightarrow> bytes option" where
  "utf8_encode [] = Some []"
| "utf8_encode (c # cs) =
     (case utf8_encode_char c of
        None \<Rightarrow> None
      | Some b \<Rightarrow> (case utf8_encode cs of None \<Rightarrow> None | Some bs \<Rightarrow> Some (b @ bs)))"

section \<open>The segment repair primitive\<close>

text \<open>
  \<open>fix_mojibake_segment\<close>: the \<open>for codec in ['cp1252', 'latin-1']\<close> loop.  The outer
  \<open>try\<close> continues with the next codec when the first encode or decode raises; the inner
  \<open>try\<close> swallows a failure of the second round and falls to \<open>return fixed\<close>.
\<close>

fun fix_mojibake_loop :: "codec list \<Rightarrow> str \<Rightarrow> str" where
  "fix_mojibake_loop [] text = text"
| "fix_mojibake_loop (codec # rest) text =
     (case encode codec text of
        None \<Rightarrow> fix_mojibake_loop rest text
      | Some bs \<Rightarrow>
          (case utf8_decode bs of
             None \<Rightarrow> fix_mojibake_loop rest text
           | Some fixed \<Rightarrow>
               (case encode codec fixed of
                  None \<Rightarrow> fixed
                | Some bs2 \<Rightarrow>
                    (case utf8_decode bs2 of
                       None \<Rightarrow> fixed
                     | Some fixed2 \<Rightarrow>
                         if fixed2 \<noteq> fixed \<and> length fixed2 < length fixed
                         then fixed2 else fixed))))"

definition fix_mojibake_segment :: "str \<Rightarrow> str" where
  "fix_mojibake_segment text = fix_mojibake_loop [CP1252, Latin1] text"

section \<open>Strategy C: segments within a line\<close>

text \<open>
  The inner \<open>while j < len(line) and ord(line[j]) >= 0x80: j += 1\<close> of
  \<open>fix_line_segments\<close>.
\<close>

function scan_segment_end :: "str \<Rightarrow> nat \<Rightarrow> nat" where
  "scan_segment_end line j =
     (if j < length line \<and> 0x80 \<le> line ! j then scan_segment_end line (j + 1) else j)"
  by pat_completeness auto
termination
  by (relation "measure (\<lambda>(line, j). length line - j)") auto

declare scan_segment_end.simps [simp del]

text \<open>The slice \<open>line[i:j]\<close> for \<open>0 \<le> i\<close>.\<close>

definition slice :: "str \<Rightarrow> nat \<Rightarrow> nat \<Rightarrow> str" where
  "slice line i j = take (j - i) (drop i line)"

text \<open>
  The outer \<open>while i < len(line)\<close> loop; \<open>result\<close> is the list of pieces that
  \<open>''.join(result)\<close> concatenates at the end.
\<close>

function fix_line_segments_loop :: "str \<Rightarrow> nat \<Rightarrow> str list \<Rightarrow> str list" where
  "fix_line_segments_loop line i result =
     (if i < length line then
        (if 0xC0 \<le> line ! i then
           (let j = scan_segment_end line i;
                segment = slice line i j;
                fixed = fix_mojibake_segment segment
            in fix_line_segments_loop line j (result @ [fixed]))
         else fix_line_segments_loop line (i + 1) (result @ [[line ! i]]))
      else result)"
  by pat_completeness auto
termination
proof -
  have mono: "k \<le> scan_segment_end line k" for line k
  proof (induction line k rule: scan_segment_end.induct)
    case (1 line j)
    show ?case
    proof (cases "j < length line \<and> 0x80 \<le> line ! j")
      case True
      then have "scan_segment_end line j = scan_segment_end line (j + 1)"
        by (subst scan_segment_end.simps) simp
      with "1.IH" True show ?thesis by simp
    next
      case False
      then have "scan_segment_end line j = j"
        by (subst scan_segment_end.simps) auto
      then show ?thesis by simp
    qed
  qed
  have gt: "i < scan_segment_end line i" if "i < length line" "0xC0 \<le> line ! i" for line i
  proof -
    have "scan_segment_end line i = scan_segment_end line (i + 1)"
      using that by (subst scan_segment_end.simps) simp
    moreover have "i + 1 \<le> scan_segment_end line (i + 1)"
      by (rule mono)
    ultimately show ?thesis by simp
  qed
  show ?thesis
    by (relation "measure (\<lambda>(line, i, result). length line - i)")
       (auto simp: gt diff_less_mono2)
qed

declare fix_line_segments_loop.simps [simp del]

definition fix_line_segments :: "str \<Rightarrow> str" where
  "fix_line_segments line = concat (fix_line_segments_loop line 0 [])"

section \<open>Console output\<close>

text \<open>
  Every \<open>print\<close> of the script is one constructor, carrying the values that are formatted
  into the line.  \<open>show_sample_changes\<close> only prints: its lines are a function of the
  original and the repaired text, recorded as \<open>Sample_changes\<close>.
\<close>

datatype msg =
    Method_full_file codec
  | Method_line_by_line nat
  | Control_char_fix str nat
  | Pass2_left nat
  | Replaced string nat
  | Fallback_total nat
  | No_issues
  | Chars_collapsed int
  | File_size nat nat
  | Sample_changes str str
  | Warning_remain nat
  | Warning_pattern str nat
  | Dry_run_note
  | Backup_note string
  | Fixed_ok
  | Error_not_found string
  | Rule_line
  | Processing string
  | Usage
  | Usage_check
  | Dry_run_mode
  | All_done
  | Some_errors

section \<open>The fix strategy selector\<close>

text \<open>\<open>content.split('\n')\<close> and \<open>'\n'.join(lines)\<close>.\<close>

fun split_nl :: "str \<Rightarrow> str list" where
  "split_nl [] = [[]]"
| "split_nl (c # cs) =
     (if c = 0x0A then [] # split_nl cs
      else (case split_nl cs of [] \<Rightarrow> [[c]] | l # ls \<Rightarrow> (c # l) # ls))"

fun join_nl :: "str list \<Rightarrow> str" where
  "join_nl [] = []"
| "join_nl [l] = l"
| "join_nl (l # ls) = l @ 0x0A # join_nl ls"

text \<open>
  Strategy 1, the first \<open>for codec in ['cp1252', 'latin-1']\<close> loop of \<open>fix_encoding\<close>:
  one reversal of the whole content, verified to encode as UTF-8, returned when strictly
  shorter than the input; a raise or a result that is not shorter goes on to the next
  codec.  \<open>None\<close> means the loop ended without returning.
\<close>

fun full_file_fix :: "codec list \<Rightarrow> str \<Rightarrow> (str \<times> codec) option" where
  "full_file_fix [] content = None"
| "full_file_fix (codec # rest) content =
     (case encode codec content of
        None \<Rightarrow> full_file_fix rest content
      | Some bs \<Rightarrow>
          (case utf8_decode bs of
             None \<Rightarrow> full_file_fix rest content
           | Some full_fix \<Rightarrow>
               (case utf8_encode full_fix of
                  None \<Rightarrow> full_file_fix rest content
                | Some _ \<Rightarrow>
                    if length full_fix < length content then Some (full_fix, codec)
                    else full_file_fix rest content)))"

text \<open>
  Strategy 2 for one line: the inner codec loop.  The result is \<open>fixed_line\<close> with the
  increment of \<open>changes\<close>, or \<open>None\<close> when \<open>fixed_line\<close> is still \<open>None\<close> after the loop.
\<close>

fun fix_line_codecs :: "codec list \<Rightarrow> str \<Rightarrow> (str \<times> nat) option" where
  "fix_line_codecs [] line = None"
| "fix_line_codecs (codec # rest) line =
     (case encode codec line of
        None \<Rightarrow> fix_line_codecs rest line
      | Some bs \<Rightarrow>
          (case utf8_decode bs of
             None \<Rightarrow> fix_line_codecs rest line
           | Some candidate \<Rightarrow>
               if candidate \<noteq> line then Some (candidate, 1) else Some (line, 0)))"

text \<open>The \<open>for line in lines\<close> loop with its accumulators \<open>fixed_lines\<close> and \<open>changes\<close>.\<close>

fun fix_lines :: "str list \<Rightarrow> str list \<Rightarrow> nat \<Rightarrow> str list \<times> nat" where
  "fix_lines [] fixed_lines changes = (fixed_lines, changes)"
| "fix_lines (line # lines) fixed_lines changes =
     (case fix_line_codecs [CP1252, Latin1] line of
        Some (fixed_line, inc) \<Rightarrow> fix_lines lines (fixed_lines @ [fixed_line]) (changes + inc)
      | None \<Rightarrow>
          (let fixed_line = fix_line_segments line
           in fix_lines lines (fixed_lines @ [fixed_line])
                (if fixed_line \<noteq> line then changes + 1 else changes)))"

definition fix_encoding :: "str \<Rightarrow> str \<times> msg list" where
  "fix_encoding content =
     (case full_file_fix [CP1252, Latin1] content of
        Some (full_fix, codec) \<Rightarrow> (full_fix, [Method_full_file codec])
      | None \<Rightarrow>
          (case fix_lines (split_nl content) [] 0 of
             (fixed_lines, changes) \<Rightarrow>
               (join_nl fixed_lines,
                if 0 < changes then [Method_line_by_line changes] else [])))"

section \<open>String search and replacement\<close>

text \<open>
  \<open>sub in s\<close>, \<open>s.count(sub)\<close> and \<open>s.replace(old, new)\<close> on Python strings: occurrences
  are found left to right and do not overlap.  For the empty pattern Python counts
  \<open>len(s) + 1\<close> occurrences and inserts \<open>new\<close> around every character.
\<close>

definition starts_with :: "str \<Rightarrow> str \<Rightarrow> bool" where
  "starts_with sub s = (take (length sub) s = sub)"

fun contains :: "str \<Rightarrow> str \<Rightarrow> bool" where
  "contains sub [] = (sub = [])"
| "contains sub (c # cs) = (starts_with sub (c # cs) \<or> contains sub cs)"

function count_str :: "str \<Rightarrow> str \<Rightarrow> nat" where
  "count_str sub s =
     (if sub = [] then length s + 1
      else if s = [] then 0
      else if starts_with sub s then 1 + count_str sub (drop (length sub) s)
      else count_str sub (tl s))"
  by pat_completeness auto
termination
  by (relation "measure (\<lambda>(sub, s). length s)") auto

declare count_str.simps [simp del]

function replace_str :: "str \<Rightarrow> str \<Rightarrow> str \<Rightarrow> str" where
  "replace_str old new s =
     (if old = [] then new @ concat (map (\<lambda>c. c # new) s)
      else if s = [] then []
      else if starts_with old s then new @ replace_str old new (drop (length old) s)
      else hd s # replace_str old new (tl s))"
  by pat_completeness auto
termination
  by (relation "measure (\<lambda>(old, new, s). length s)") auto

declare replace_str.simps [simp del]

section \<open>The substitution tables and the residual scanner\<close>

text \<open>The dictionary \<open>control_char_fixes\<close> of \<open>fix_file\<close>, in insertion order.\<close>

definition control_char_fixes :: "(str \<times> str) list" where
  "control_char_fixes =
    [([0xE2, 0x2020, 0x90], [0x2190]),
     ([0xE2, 0x153, 0x8F, 0xEF, 0xB8, 0x8F], [0x270F, 0xFE0F]),
     ([0xE2, 0x153, 0x8F], [0x270F]),
     ([0xE2, 0x161, 0xA0], [0x26A0]),
     ([0xE2, 0x161, 0xA1], [0x26A1]),
     ([0xE2, 0x178, 0xB3], [0x27F3])]"

text \<open>The list \<open>replacements\<close> of \<open>apply_known_replacements\<close>.\<close>

definition replacements :: "(str \<times> str \<times> string) list" where
  "replacements =
    [([0xE2, 0x153, 0x201C], [0x2713], ''checkmark''),
     ([0xE2, 0x153, 0x2022], [0x2715], ''X mark''),
     ([0xE2, 0x153, 0x201D], [0x2713], ''checkmark variant''),
     ([0xE2, 0x2013, 0xB6], [0x25B6], ''triangle right''),
     ([0xE2, 0x2020, 0x2019], [0x2192], ''right arrow''),
     ([0xE2, 0x2020, 0x90], [0x2190], ''left arrow''),
     ([0xE2, 0x20AC, 0x201C], [0x2013], ''en dash''),
     ([0xE2, 0x20AC, 0x201D], [0x2014], ''em dash''),
     ([0xE2, 0x20AC, 0x2122], [0x2019], ''right single quote''),
     ([0xE2, 0x20AC, 0x2DC], [0x2018], ''left single quote''),
     ([0xE2, 0x20AC, 0x153], [0x201C], ''left double quote''),
     ([0xE2, 0x20AC, 0x9D], [0x201D], ''right double quote''),
     ([0xE2, 0x20AC, 0xA2], [0x2022], ''bullet''),
     ([0xE2, 0x20AC, 0xA6], [0x2026], ''ellipsis''),
     ([0xC2, 0xA3], [0xA3], ''pound sign'')]"

text \<open>The list \<open>known_garbled\<close> of \<open>scan_remaining_issues\<close>.\<close>

definition known_garbled :: "str list" where
  "known_garbled =
    [[0xE2, 0x153], [0xE2, 0x20AC], [0xE2, 0x2013], [0xE2, 0x2020], [0xC2, 0xA3],
     [0xC3, 0xA2], [0xC3, 0xA9], [0xC3, 0xA8], [0xC3, 0x192], [0xC3, 0x201A]]"

fun scan_patterns :: "str list \<Rightarrow> str \<Rightarrow> (str \<times> nat) list" where
  "scan_patterns [] content = []"
| "scan_patterns (pattern # rest) content =
     (if contains pattern content
      then (pattern, count_str pattern content) # scan_patterns rest content
      else scan_patterns rest content)"

definition scan_remaining_issues :: "str \<Rightarrow> (str \<times> nat) list" where
  "scan_remaining_issues content = scan_patterns known_garbled content"

text \<open>
  The loop of \<open>apply_known_replacements\<close> with its variables \<open>result\<close> and \<open>total\<close> (here \<open>total_n\<close>) and
  the lines it prints.
\<close>

fun replace_loop ::
  "(str \<times> str \<times> string) list \<Rightarrow> str \<Rightarrow> nat \<Rightarrow> msg list \<Rightarrow> str \<times> nat \<times> msg list" where
  "replace_loop [] result total_n out = (result, total_n, out)"
| "replace_loop ((garbled, correct, desc) # rest) result total_n out =
     (if contains garbled result
      then replace_loop rest (replace_str garbled correct result)
             (total_n + count_str garbled result)
             (out @ [Replaced desc (count_str garbled result)])
      else replace_loop rest result total_n out)"

definition apply_known_replacements :: "str \<Rightarrow> str \<times> msg list" where
  "apply_known_replacements content =
     (case replace_loop replacements content 0 [] of
        (result, total_n, out) \<Rightarrow>
          (result, out @ (if 0 < total_n then [Fallback_total total_n] else [])))"

text \<open>Pass 2 of \<open>fix_file\<close>: the loop over \<open>control_char_fixes.items()\<close>.\<close>

fun control_char_loop :: "(str \<times> str) list \<Rightarrow> str \<Rightarrow> msg list \<Rightarrow> str \<times> msg list" where
  "control_char_loop [] fixed out = (fixed, out)"
| "control_char_loop ((garbled, correct) # rest) fixed out =
     (if contains garbled fixed
      then control_char_loop rest (replace_str garbled correct fixed)
             (out @ [Control_char_fix correct (count_str garbled fixed)])
      else control_char_loop rest fixed out)"

text \<open>
  Passes 1 to 3 of \<open>fix_file\<close>, from \<open>fixed = fix_encoding(content)\<close> to the value of
  \<open>fixed\<close> that is compared with \<open>content\<close>: the repair pipeline.
\<close>

definition fix_file_passes :: "str \<Rightarrow> str \<times> msg list" where
  "fix_file_passes content =
     (case fix_encoding content of
        (fixed1, out1) \<Rightarrow>
          (case control_char_loop control_char_fixes fixed1 [] of
             (fixed2, out2) \<Rightarrow>
               (let remaining = scan_remaining_issues fixed2
                in if remaining \<noteq> [] then
                     (case apply_known_replacements fixed2 of
                        (fixed3, out3) \<Rightarrow>
                          (fixed3,
                           out1 @ out2 @ [Pass2_left (sum_list (map snd remaining))] @ out3))
                   else (fixed2, out1 @ out2))))"

section \<open>The file driver and the command line\<close>

text \<open>
  The file system maps a path to the bytes of the file stored there; only regular files
  are modelled, and \<open>os.path.exists\<close> is definedness.  Every console line and every
  change of the file system is appended to \<open>events\<close> in the order in which it happens.
  Reading in text mode decodes UTF-8 and translates \<open>\r\n\<close> and \<open>\r\<close> to \<open>\n\<close>; writing
  encodes UTF-8 and, with \<open>os.linesep\<close> being \<open>\n\<close>, leaves newlines as they are.
  An exception that the script does not catch ends the process.
\<close>

datatype event = Print msg | Copy_file string string | Write_file string

record world =
  files :: "string \<rightharpoonup> bytes"
  events :: "event list"

datatype exn = UnicodeDecodeError | UnicodeEncodeError

definition emit :: "msg list \<Rightarrow> world \<Rightarrow> world" where
  "emit ms w = w\<lparr>events := events w @ map Print ms\<rparr>"

fun translate_newlines :: "str \<Rightarrow> str" where
  "translate_newlines [] = []"
| "translate_newlines [c] = (if c = 0x0D then [0x0A] else [c])"
| "translate_newlines (c # d # ds) =
     (if c = 0x0D then
        (if d = 0x0A then 0x0A # translate_newlines ds
         else 0x0A # translate_newlines (d # ds))
      else c # translate_newlines (d # ds))"

definition read_text :: "bytes \<Rightarrow> str option" where
  "read_text raw = map_option translate_newlines (utf8_decode raw)"

definition final_report :: "str \<Rightarrow> str \<Rightarrow> msg list" where
  "final_report content fixed =
     (let final_remaining = scan_remaining_issues fixed
      in [Chars_collapsed (int (length content) - int (length fixed)),
          File_size (length content) (length fixed),
          Sample_changes content fixed]
         @ (if final_remaining \<noteq> []
            then Warning_remain (sum_list (map snd final_remaining))
                 # map (\<lambda>(pattern, count). Warning_pattern pattern count) final_remaining
            else []))"

definition fix_file :: "string \<Rightarrow> bool \<Rightarrow> world \<Rightarrow> (exn + bool) \<times> world" where
  "fix_file filepath dry_run w =
     (case files w filepath of
        None \<Rightarrow> (Inr False, emit [Error_not_found filepath] w)
      | Some raw \<Rightarrow>
          (let w1 = emit [Rule_line, Processing filepath, Rule_line] w
           in case read_text raw of
                None \<Rightarrow> (Inl UnicodeDecodeError, w1)
              | Some content \<Rightarrow>
                  (case fix_file_passes content of
                     (fixed, out) \<Rightarrow>
                       (let w2 = emit out w1
                        in if content = fixed then (Inr True, emit [No_issues] w2)
                           else
                             (let w3 = emit (final_report content fixed) w2
                              in if dry_run then (Inr True, emit [Dry_run_note] w3)
                                 else
                                   (let backup_path = filepath @ ''.backup'';
                                        w4 = emit [Backup_note backup_path]
                                               (w3\<lparr>files := (files w3)(backup_path \<mapsto> raw),
                                                   events := events w3
                                                     @ [Copy_file filepath backup_path]\<rparr>)
                                    in case utf8_encode fixed of
                                         None \<Rightarrow>
                                           (Inl UnicodeEncodeError,
                                            w4\<lparr>files := (files w4)(filepath \<mapsto> []),
                                               events := events w4 @ [Write_file filepath]\<rparr>)
                                       | Some bs \<Rightarrow>
                                           (Inr True,
                                            emit [Fixed_ok]
                                              (w4\<lparr>files := (files w4)(filepath \<mapsto> bs),
                                                  events := events w4
                                                    @ [Write_file filepath]\<rparr>))))))))"

text \<open>The \<open>for filepath in args\<close> loop of \<open>main\<close> with its flag \<open>success\<close>.\<close>

fun process_files :: "string list \<Rightarrow> bool \<Rightarrow> bool \<Rightarrow> world \<Rightarrow> (exn + bool) \<times> world" where
  "process_files [] dry_run success w = (Inr success, w)"
| "process_files (filepath # rest) dry_run success w =
     (case fix_file filepath dry_run w of
        (Inl e, w') \<Rightarrow> (Inl e, w')
      | (Inr ok, w') \<Rightarrow> process_files rest dry_run (if \<not> ok then False else success) w')"

text \<open>
  \<open>main\<close> returns the exit status of the process: \<open>sys.exit(1)\<close> after the usage text,
  1 for an uncaught exception, and 0 when \<open>main\<close> returns, which it does after printing
  either summary line.
\<close>

definition main :: "string list \<Rightarrow> world \<Rightarrow> nat \<times> world" where
  "main argv w =
     (if argv = [] then (1, emit [Usage, Usage_check] w)
      else
        (let dry_run = (''--check'' \<in> set argv);
             args = (if dry_run then remove1 ''--check'' argv else argv);
             w1 = (if dry_run then emit [Dry_run_mode] w else w)
         in case process_files args dry_run True w1 of
              (Inl e, w2) \<Rightarrow> (1, w2)
            | (Inr success, w2) \<Rightarrow>
                (0, emit [Rule_line, if success then All_done else Some_errors, Rule_line] w2)))"

section \<open>The contract of the segment repair primitive, in the specification's words\<close>

text \<open>
  One reversal: (a) encode the characters back into the codec's bytes, then (b) decode
  those bytes as UTF-8.  The result is present when both steps succeed.
\<close>

definition once_fixed :: "codec \<Rightarrow> str \<Rightarrow> str option" where
  "once_fixed codec s = (case encode codec s of None \<Rightarrow> None | Some bs \<Rightarrow> utf8_decode bs)"

text \<open>
  The twice-fixed result is returned when it exists, differs from the once-fixed one and
  is strictly shorter; otherwise the once-fixed result is returned.
\<close>

definition twice_or_once :: "codec \<Rightarrow> str \<Rightarrow> str" where
  "twice_or_once codec once =
     (case once_fixed codec once of
        Some twice \<Rightarrow> if twice \<noteq> once \<and> length twice < length once then twice else once
      | None \<Rightarrow> once)"

text \<open>
  Windows-1252 first, then Latin-1; the first codec whose reversal succeeds decides, and the
  input is returned unchanged when neither does.
\<close>

definition spec_segment_repair :: "str \<Rightarrow> str" where
  "spec_segment_repair s =
     (case once_fixed CP1252 s of
        Some once \<Rightarrow> twice_or_once CP1252 once
      | None \<Rightarrow>
          (case once_fixed Latin1 s of
             Some once \<Rightarrow> twice_or_once Latin1 once
           | None \<Rightarrow> s))"

section \<open>Evaluation rules\<close>

lemmas codec_eval =
  cp1252_encode_char_def cp1252_table_def latin1_encode_char_def is_cont_def
  utf8_encode_char_def

section \<open>C1: the segment repair primitive\<close>

text \<open>
  C1. For every input string, \<open>fix_mojibake_segment\<close> tries Windows-1252 and then Latin-1;
  for the first codec whose encode and UTF-8 decode both succeed it returns the
  twice-reversed result exactly when the second round also succeeds, differs from the
  once-reversed result and is strictly shorter, and the once-reversed result otherwise;
  when both codecs fail it returns the input unchanged.
\<close>

theorem fix_mojibake_segment_contract:
  "fix_mojibake_segment text = spec_segment_repair text"
  unfolding fix_mojibake_segment_def spec_segment_repair_def twice_or_once_def once_fixed_def
  by (simp split: option.splits)

theorem fix_mojibake_segment_contract_witness:
  "fix_mojibake_segment [0xC3, 0x192, 0xC2, 0xA9] = [0xE9]"
proof -
  have "spec_segment_repair [0xC3, 0x192, 0xC2, 0xA9] = [0xE9]"
    by (simp add: spec_segment_repair_def twice_or_once_def once_fixed_def codec_eval)
  then show ?thesis
    using fix_mojibake_segment_contract [of "[0xC3, 0x192, 0xC2, 0xA9]"] by simp
qed

end
